theory Spec2Isabelle
  imports Main "HOL-Library.Word"
begin

section \<open>OrderFlow: the order repository and the session gate\<close>

text \<open>
  A shallow embedding of the Go sources: \<^verbatim>\<open>pkg/order/order.go\<close> (the entity and the
  sentinel error), \<^verbatim>\<open>pkg/order/memory/memory.go\<close> (the in-memory repository and, in the
  same file, the PostgreSQL repository), \<^verbatim>\<open>order/pgstore.go\<close>, the older
  \<^verbatim>\<open>order.Store\<close> and the HTTP handlers of \<^verbatim>\<open>cmd/api\<close>.

  Every method of the in-memory repository takes the lock for its whole body, so a method
  body is one atomic step on the repository's state; the model is the sequential
  behaviour of those steps and passes the state explicitly.
\<close>

subsection \<open>Errors, contexts, slices\<close>

text \<open>
  Go's \<^verbatim>\<open>error\<close> values that the code compares or produces. \<open>OtherError\<close> carries the
  message of any error of a library the code only passes on.
\<close>

datatype error =
    ErrNotFound
  | ErrNoRows
  | ErrNoCookie
  | RedisNil
  | Canceled
  | DeadlineExceeded
  | OtherError string

fun Error :: "error \<Rightarrow> string" where
  "Error ErrNotFound = ''order not found''"
| "Error ErrNoRows = ''sql: no rows in result set''"
| "Error ErrNoCookie = ''http: named cookie not present''"
| "Error RedisNil = ''redis: nil''"
| "Error Canceled = ''context canceled''"
| "Error DeadlineExceeded = ''context deadline exceeded''"
| "Error (OtherError msg) = msg"

text \<open>
  A \<^verbatim>\<open>context.Context\<close>: what \<^verbatim>\<open>ctx.Err()\<close> reports (\<open>None\<close> while the context is live,
  \<open>Canceled\<close> or \<open>DeadlineExceeded\<close> once the caller has given up) and the values
  attached with \<^verbatim>\<open>context.WithValue\<close>.
\<close>

record Context =
  ctx_Err :: "error option"
  ctx_Value :: "string \<rightharpoonup> string"

definition Background :: Context where
  "Background = \<lparr>ctx_Err = None, ctx_Value = Map.empty\<rparr>"

definition WithValue :: "Context \<Rightarrow> string \<Rightarrow> string \<Rightarrow> Context" where
  "WithValue parent k v = parent\<lparr>ctx_Value := (ctx_Value parent)(k \<mapsto> v)\<rparr>"

text \<open>
  A Go slice is either \<^verbatim>\<open>nil\<close> (\<open>None\<close>) or a non-nil sequence (\<open>Some xs\<close>);
  \<^verbatim>\<open>make([]T, 0, n)\<close> is the non-nil empty slice, and \<^verbatim>\<open>append\<close> to a nil slice
  allocates.
\<close>

type_synonym 'a slice = "'a list option"

definition make_slice :: "nat \<Rightarrow> 'a slice" where
  "make_slice cap = Some []"

fun append_slice :: "'a slice \<Rightarrow> 'a \<Rightarrow> 'a slice" where
  "append_slice None x = Some [x]"
| "append_slice (Some xs) x = Some (xs @ [x])"

subsection \<open>The entity\<close>

text \<open>
  \<^verbatim>\<open>type Order struct { ID string; Item string; Quantity int }\<close>. Go's \<^verbatim>\<open>int\<close> is
  the 64-bit machine integer of the build target (read signed with \<open>sint\<close>); the code
  never computes with it.
\<close>

record Order =
  ID :: string
  Item :: string
  Quantity :: "64 word"

text \<open>The zero value \<^verbatim>\<open>order.Order{}\<close>.\<close>

definition Order_zero :: Order where
  "Order_zero = \<lparr>ID = [], Item = [], Quantity = 0\<rparr>"

subsection \<open>The in-memory repository\<close>

text \<open>
  \<^verbatim>\<open>type Repository struct { mu sync.RWMutex; orders map[string]order.Order }\<close>.
\<close>

record memory_Repository =
  orders :: "string \<rightharpoonup> Order"

definition memory_New :: memory_Repository where
  "memory_New = \<lparr>orders = Map.empty\<rparr>"

text \<open>
  Each method returns its Go results followed by the repository after the call. None of
  them reads its \<^verbatim>\<open>ctx\<close> argument.
\<close>

definition memory_Create ::
  "Context \<Rightarrow> Order \<Rightarrow> memory_Repository \<Rightarrow> error option \<times> memory_Repository" where
  "memory_Create ctx ord r = (None, r\<lparr>orders := (orders r)(ID ord \<mapsto> ord)\<rparr>)"

definition memory_Get ::
  "Context \<Rightarrow> string \<Rightarrow> memory_Repository \<Rightarrow> Order \<times> error option" where
  "memory_Get ctx oid r =
     (case orders r oid of
        None \<Rightarrow> (Order_zero, Some ErrNotFound)
      | Some ord \<Rightarrow> (ord, None))"

text \<open>
  \<^verbatim>\<open>for _, o := range r.orders { out = append(out, o) }\<close>: Go visits the keys of a map in
  an order of the runtime's choosing, each key once. The order visited is the parameter
  \<open>ks\<close>, an enumeration of the map's keys.
\<close>

fun range_append :: "(string \<rightharpoonup> Order) \<Rightarrow> string list \<Rightarrow> Order slice \<Rightarrow> Order slice" where
  "range_append m [] out = out"
| "range_append m (k # ks) out =
     range_append m ks (case m k of None \<Rightarrow> out | Some ord \<Rightarrow> append_slice out ord)"

definition memory_List ::
  "Context \<Rightarrow> string list \<Rightarrow> memory_Repository \<Rightarrow> Order slice \<times> error option" where
  "memory_List ctx ks r = (range_append (orders r) ks (make_slice (length ks)), None)"

definition memory_Update ::
  "Context \<Rightarrow> Order \<Rightarrow> memory_Repository \<Rightarrow> error option \<times> memory_Repository" where
  "memory_Update ctx ord r =
     (case orders r (ID ord) of
        None \<Rightarrow> (Some ErrNotFound, r)
      | Some _ \<Rightarrow> (None, r\<lparr>orders := (orders r)(ID ord \<mapsto> ord)\<rparr>))"

definition memory_Delete ::
  "Context \<Rightarrow> string \<Rightarrow> memory_Repository \<Rightarrow> error option \<times> memory_Repository" where
  "memory_Delete ctx oid r =
     (case orders r oid of
        None \<Rightarrow> (Some ErrNotFound, r)
      | Some _ \<Rightarrow> (None, r\<lparr>orders := (orders r)(oid := None)\<rparr>))"

subsection \<open>The older in-process store\<close>

text \<open>
  \<^verbatim>\<open>type Store struct { mu sync.Mutex; orders map[string]Order }\<close>, with the same
  \<^verbatim>\<open>Order\<close> fields; \<^verbatim>\<open>Create\<close> returns nothing.
\<close>

record Store =
  Store_orders :: "string \<rightharpoonup> Order"

definition NewStore :: Store where
  "NewStore = \<lparr>Store_orders = Map.empty\<rparr>"

definition Store_Create :: "Order \<Rightarrow> Store \<Rightarrow> Store" where
  "Store_Create ord s = s\<lparr>Store_orders := (Store_orders s)(ID ord \<mapsto> ord)\<rparr>"

definition Store_List :: "string list \<Rightarrow> Store \<Rightarrow> Order slice" where
  "Store_List ks s = range_append (Store_orders s) ks (make_slice (length ks))"

subsection \<open>The PostgreSQL repository\<close>

text \<open>
  \<^verbatim>\<open>database/sql\<close> and the database engine are outside the repository; the code meets
  them at \<^verbatim>\<open>QueryContext\<close> and \<^verbatim>\<open>ExecContext\<close>.

  \<^verbatim>\<open>QueryContext\<close> yields an error or a cursor. A cursor is what the loop
  \<^verbatim>\<open>for rows.Next() { ... rows.Scan(...) ... }\<close> sees of it: for each row that
  \<^verbatim>\<open>rows.Next()\<close> delivers, the outcome of \<^verbatim>\<open>rows.Scan\<close> (an error, or the three
  columns as an order), and what \<^verbatim>\<open>rows.Err()\<close> reports once \<^verbatim>\<open>Next\<close> is false.
\<close>

record Rows =
  Rows_Scan :: "(error + Order) list"
  Rows_Err :: "error option"

text \<open>
  The loop of \<^verbatim>\<open>List\<close>. The accumulator starts as the nil slice declared by
  \<^verbatim>\<open>var orders []order.Order\<close>; a failing scan returns \<^verbatim>\<open>nil, err\<close>.
\<close>

fun scan_rows :: "(error + Order) list \<Rightarrow> error option \<Rightarrow> Order slice \<Rightarrow> Order slice \<times> error option" where
  "scan_rows [] rows_err acc = (acc, rows_err)"
| "scan_rows (Inl err # rest) rows_err acc = (None, Some err)"
| "scan_rows (Inr ord # rest) rows_err acc = scan_rows rest rows_err (append_slice acc ord)"

text \<open>
  \<open>q\<close> is the outcome of
  \<^verbatim>\<open>r.db.QueryContext(ctx, "SELECT id,item,quantity FROM orders")\<close>.
\<close>

definition postgres_List :: "Context \<Rightarrow> error + Rows \<Rightarrow> Order slice \<times> error option" where
  "postgres_List ctx q =
     (case q of
        Inl err \<Rightarrow> (None, Some err)
      | Inr rows \<Rightarrow> scan_rows (Rows_Scan rows) (Rows_Err rows) None)"

text \<open>\<^verbatim>\<open>PGStore.List\<close> of \<^verbatim>\<open>order/pgstore.go\<close> has the same body.\<close>

definition PGStore_List :: "Context \<Rightarrow> error + Rows \<Rightarrow> Order slice \<times> error option" where
  "PGStore_List ctx q =
     (case q of
        Inl err \<Rightarrow> (None, Some err)
      | Inr rows \<Rightarrow> scan_rows (Rows_Scan rows) (Rows_Err rows) None)"

text \<open>
  The table \<^verbatim>\<open>orders (id TEXT PRIMARY KEY, item TEXT, quantity INT)\<close> that
  \<^verbatim>\<open>main\<close> creates: the primary key makes it a finite map from \<^verbatim>\<open>id\<close> to the
  other two columns.
\<close>

type_synonym Table = "string \<rightharpoonup> string \<times> 64 word"

text \<open>
  The statement \<^verbatim>\<open>UPDATE orders SET item=$2, quantity=$3 WHERE id=$1\<close> on such a
  table: the number of rows affected and the table afterwards. (The engine's \<^verbatim>\<open>INT\<close>
  is narrower than Go's \<^verbatim>\<open>int\<close>; a quantity it refuses is a failing statement, see
  \<open>fault\<close> below.)
\<close>

definition sql_UPDATE :: "string \<Rightarrow> string \<Rightarrow> 64 word \<Rightarrow> Table \<Rightarrow> nat \<times> Table" where
  "sql_UPDATE p1 p2 p3 t =
     (case t p1 of
        None \<Rightarrow> (0, t)
      | Some _ \<Rightarrow> (1, t(p1 \<mapsto> (p2, p3))))"

text \<open>
  \<open>fault\<close> is the error \<^verbatim>\<open>ExecContext\<close> returns when the statement does not run
  (connection loss, timeout, a cancelled context, a violated constraint), \<open>None\<close> when
  it runs.
\<close>

definition postgres_Update ::
  "Context \<Rightarrow> Order \<Rightarrow> error option \<Rightarrow> Table \<Rightarrow> error option \<times> Table" where
  "postgres_Update ctx ord fault t =
     (case fault of
        Some err \<Rightarrow> (Some err, t)
      | None \<Rightarrow>
          (let (n, t') = sql_UPDATE (ID ord) (Item ord) (Quantity ord) t
           in if n = 0 then (Some ErrNotFound, t') else (None, t')))"

subsection \<open>Requests, responses, time\<close>

text \<open>
  What the handlers read of an \<^verbatim>\<open>*http.Request\<close>: its cookies by name
  (\<^verbatim>\<open>r.Cookie(name)\<close> fails with \<^verbatim>\<open>http.ErrNoCookie\<close> when the name is absent), the
  route variables of \<^verbatim>\<open>mux.Vars(r)\<close>, the outcome of
  \<^verbatim>\<open>json.NewDecoder(r.Body).Decode(&v)\<close> (the decoder's error, or the decoded value),
  and \<^verbatim>\<open>r.Context()\<close>.
\<close>

record 'b Request =
  Cookies :: "string \<rightharpoonup> string"
  Vars :: "string \<rightharpoonup> string"
  Body :: "error + 'b"
  Ctx :: Context

text \<open>
  What a handler leaves in its \<^verbatim>\<open>http.ResponseWriter\<close>: the status code (200 when
  the handler writes a body without calling \<^verbatim>\<open>WriteHeader\<close>), the body, and the
  cookies set. A JSON body is kept as the value that \<^verbatim>\<open>json.NewEncoder(w).Encode\<close> is
  given.
\<close>

datatype payload = NoBody | Text string | JSON_Order Order

record Cookie =
  Name :: string
  Value :: string
  Path :: string
  Expires :: int
  HttpOnly :: bool

record Response =
  status :: nat
  payload :: payload
  set_cookies :: "Cookie list"

text \<open>
  \<^verbatim>\<open>http.Error(w, msg, code)\<close> writes the code and the message followed by a newline;
  \<^verbatim>\<open>http.NotFound\<close> is \<^verbatim>\<open>http.Error(w, "404 page not found", 404)\<close>.
\<close>

definition http_Error :: "string \<Rightarrow> nat \<Rightarrow> Response" where
  "http_Error msg code = \<lparr>status = code, payload = Text (msg @ [CHR 0x0A]), set_cookies = []\<rparr>"

definition http_NotFound :: Response where
  "http_NotFound = http_Error ''404 page not found'' 404"

text \<open>
  A \<^verbatim>\<open>time.Time\<close> is its number of nanoseconds since the Unix epoch;
  \<^verbatim>\<open>UnixNano\<close> gives it as an \<^verbatim>\<open>int64\<close>, \<^verbatim>\<open>time.Hour\<close> is a duration in
  nanoseconds.
\<close>

definition UnixNano :: "int \<Rightarrow> 64 word" where
  "UnixNano t = word_of_int t"

definition Hour :: int where
  "Hour = 3600000000000"

text \<open>
  \<^verbatim>\<open>strconv.FormatInt(i, base)\<close>: the digits of the magnitude of \<open>i\<close>, most
  significant first, after a minus sign when \<open>i\<close> is negative. Go panics for a base
  outside 2..36; the code passes 10.
\<close>

definition digit_char :: "nat \<Rightarrow> char" where
  "digit_char d =
     (if d < 36 then ''0123456789abcdefghijklmnopqrstuvwxyz'' ! d else CHR ''?'')"

function format_digits :: "nat \<Rightarrow> nat \<Rightarrow> string" where
  "format_digits u base =
     (if base < 2 \<or> u < base then [digit_char u]
      else format_digits (u div base) base @ [digit_char (u mod base)])"
  by pat_completeness auto
termination
  by (relation "measure fst") (auto simp: not_less)

declare format_digits.simps [simp del]

definition FormatInt :: "64 word \<Rightarrow> nat \<Rightarrow> string" where
  "FormatInt i base =
     (if sint i < 0 then CHR ''-'' # format_digits (nat (- sint i)) base
      else format_digits (nat (sint i)) base)"

subsection \<open>The HTTP handlers\<close>

text \<open>
  The handlers reach their collaborators through package-level variables
  (\<^verbatim>\<open>redisClient\<close>, and \<^verbatim>\<open>repo\<close> of the interface type \<^verbatim>\<open>order.Repository\<close>). In
  the model the method a handler calls is a parameter, and the collaborator's state
  \<open>s\<close> is passed through it. Log lines and tracing spans are not modelled; the
  context handed on is \<^verbatim>\<open>r.Context()\<close>.

  \<open>redis_Get ctx key\<close> is the outcome of \<^verbatim>\<open>redisClient.Get(ctx, key).Result()\<close>: the
  value and the error. \<open>next\<close> is the wrapped handler.
\<close>

definition authMiddleware ::
  "(Context \<Rightarrow> string \<Rightarrow> string \<times> error option) \<Rightarrow>
   ('b Request \<Rightarrow> 's \<Rightarrow> Response \<times> 's) \<Rightarrow> 'b Request \<Rightarrow> 's \<Rightarrow> Response \<times> 's" where
  "authMiddleware redis_Get next r s =
     (case Cookies r ''session_id'' of
        None \<Rightarrow> (http_Error ''unauthorized'' 401, s)
      | Some c \<Rightarrow>
          (let (user, err) = redis_Get (Ctx r) (''session:'' @ c)
           in if err \<noteq> None \<or> user = [] then (http_Error ''unauthorized'' 401, s)
              else next (r\<lparr>Ctx := WithValue (Ctx r) ''user'' user\<rparr>) s))"

record loginRequest =
  Username :: string
  Password :: string

text \<open>
  \<open>redis_Set ctx key value ttl\<close> is \<^verbatim>\<open>redisClient.Set(ctx, key, value, ttl).Err()\<close>
  with its effect on the session store. \<open>now\<close> and \<open>now2\<close> are the two readings of
  \<^verbatim>\<open>time.Now()\<close>, for the session identifier and for the cookie's expiry.
\<close>

definition loginHandler ::
  "(Context \<Rightarrow> string \<Rightarrow> string \<Rightarrow> int \<Rightarrow> 's \<Rightarrow> error option \<times> 's) \<Rightarrow>
   int \<Rightarrow> int \<Rightarrow> loginRequest Request \<Rightarrow> 's \<Rightarrow> Response \<times> 's" where
  "loginHandler redis_Set now now2 r s =
     (case Body r of
        Inl err \<Rightarrow> (http_Error ''invalid credentials'' 400, s)
      | Inr req \<Rightarrow>
          if Username req = [] then (http_Error ''invalid credentials'' 400, s)
          else
            (let sid = FormatInt (UnixNano now) 10;
                 (err, s') = redis_Set (Ctx r) (''session:'' @ sid) (Username req) Hour s
             in case err of
                  Some e \<Rightarrow> (http_Error ''session error'' 500, s')
                | None \<Rightarrow>
                    (\<lparr>status = 200, payload = NoBody,
                      set_cookies = [\<lparr>Name = ''session_id'', Value = sid, Path = ''/'',
                                      Expires = now2 + Hour, HttpOnly = True\<rparr>]\<rparr>, s')))"

text \<open>
  \<open>repo_Create\<close> is \<^verbatim>\<open>repo.Create\<close>; \<open>now\<close> is the reading of \<^verbatim>\<open>time.Now()\<close> taken
  when the decoded order has no identifier.
\<close>

definition createOrderHandler ::
  "(Context \<Rightarrow> Order \<Rightarrow> 's \<Rightarrow> error option \<times> 's) \<Rightarrow>
   int \<Rightarrow> Order Request \<Rightarrow> 's \<Rightarrow> Response \<times> 's" where
  "createOrderHandler repo_Create now r s =
     (case Body r of
        Inl err \<Rightarrow> (http_Error (Error err) 400, s)
      | Inr decoded \<Rightarrow>
          (let ord = (if ID decoded = [] then decoded\<lparr>ID := FormatInt (UnixNano now) 10\<rparr>
                      else decoded);
               (err, s') = repo_Create (Ctx r) ord s
           in case err of
                Some e \<Rightarrow> (http_Error (Error e) 500, s')
              | None \<Rightarrow> (\<lparr>status = 201, payload = JSON_Order ord, set_cookies = []\<rparr>, s')))"

text \<open>
  \<^verbatim>\<open>mux.Vars(r)["id"]\<close> is the empty string when the route has no such variable.
\<close>

definition updateOrderHandler ::
  "(Context \<Rightarrow> Order \<Rightarrow> 's \<Rightarrow> error option \<times> 's) \<Rightarrow>
   Order Request \<Rightarrow> 's \<Rightarrow> Response \<times> 's" where
  "updateOrderHandler repo_Update r s =
     (let oid = (case Vars r ''id'' of None \<Rightarrow> [] | Some v \<Rightarrow> v)
      in case Body r of
           Inl err \<Rightarrow> (http_Error (Error err) 400, s)
         | Inr decoded \<Rightarrow>
             (let ord = decoded\<lparr>ID := oid\<rparr>;
                  (err, s') = repo_Update (Ctx r) ord s
              in case err of
                   Some e \<Rightarrow>
                     if e = ErrNotFound then (http_NotFound, s')
                     else (http_Error (Error e) 500, s')
                 | None \<Rightarrow> (\<lparr>status = 200, payload = JSON_Order ord, set_cookies = []\<rparr>, s')))"

subsection \<open>Inputs of the concrete runs\<close>

text \<open>
  The orders of \<^verbatim>\<open>memory_test.go\<close> (\<^verbatim>\<open>{ID: "1", Item: "Widget", Quantity: 2}\<close>, later
  renamed \<^verbatim>\<open>"Gadget"\<close>) and a second order; a context whose caller has given up.
\<close>

definition widget :: Order where
  "widget = \<lparr>ID = ''1'', Item = ''Widget'', Quantity = 2\<rparr>"

definition gadget :: Order where
  "gadget = \<lparr>ID = ''1'', Item = ''Gadget'', Quantity = 2\<rparr>"

definition sprocket :: Order where
  "sprocket = \<lparr>ID = ''2'', Item = ''Sprocket'', Quantity = 5\<rparr>"

definition cancelled :: Context where
  "cancelled = \<lparr>ctx_Err = Some Canceled, ctx_Value = Map.empty\<rparr>"

text \<open>
  A session store held as a map from keys to values, standing for Redis in the concrete
  runs: \<^verbatim>\<open>Get\<close> of a missing key fails with \<^verbatim>\<open>redis.Nil\<close>, \<^verbatim>\<open>Set\<close> stores the value.
  A downstream handler that answers 200 and records the context of every request it is
  given. A request with the session cookie \<^verbatim>\<open>abc\<close>.
\<close>

definition kv_Get :: "(string \<rightharpoonup> string) \<Rightarrow> Context \<Rightarrow> string \<Rightarrow> string \<times> error option" where
  "kv_Get m ctx key = (case m key of None \<Rightarrow> ([], Some RedisNil) | Some v \<Rightarrow> (v, None))"

definition kv_Set ::
  "Context \<Rightarrow> string \<Rightarrow> string \<Rightarrow> int \<Rightarrow> (string \<rightharpoonup> string) \<Rightarrow>
   error option \<times> (string \<rightharpoonup> string)" where
  "kv_Set ctx key v ttl m = (None, m(key \<mapsto> v))"

definition record_next :: "unit Request \<Rightarrow> Context list \<Rightarrow> Response \<times> Context list" where
  "record_next r seen = (\<lparr>status = 200, payload = NoBody, set_cookies = []\<rparr>, seen @ [Ctx r])"

definition req_abc :: "unit Request" where
  "req_abc = \<lparr>Cookies = [''session_id'' \<mapsto> ''abc''], Vars = Map.empty, Body = Inr (),
               Ctx = Background\<rparr>"

definition req_no_cookie :: "unit Request" where
  "req_no_cookie = \<lparr>Cookies = Map.empty, Vars = Map.empty, Body = Inr (), Ctx = Background\<rparr>"

definition login_req :: "string \<Rightarrow> string \<Rightarrow> loginRequest Request" where
  "login_req u p = \<lparr>Cookies = Map.empty, Vars = Map.empty,
                     Body = Inr \<lparr>Username = u, Password = p\<rparr>, Ctx = Background\<rparr>"

definition order_req :: "(string \<rightharpoonup> string) \<Rightarrow> Order \<Rightarrow> Order Request" where
  "order_req vars decoded = \<lparr>Cookies = Map.empty, Vars = vars, Body = Inr decoded,
                             Ctx = Background\<rparr>"

section \<open>Properties\<close>

subsection \<open>The in-memory repository\<close>

lemma memory_New_orders: "orders memory_New oid = None"
  by (simp add: memory_New_def)

lemma memory_Create_orders:
  "orders (snd (memory_Create ctx ord r)) = (orders r)(ID ord \<mapsto> ord)"
  by (simp add: memory_Create_def)

lemma memory_Delete_absent_after: "orders (snd (memory_Delete ctx oid r)) oid = None"
  by (simp add: memory_Delete_def split: option.splits)

lemma memory_Delete_frame:
  "k \<noteq> oid \<Longrightarrow> orders (snd (memory_Delete ctx oid r)) k = orders r k"
  by (simp add: memory_Delete_def split: option.splits)

text \<open>
  C1. Round trip: for an order \<open>e\<close> with a non-empty identifier, \<open>Create(e)\<close> reports no
  error and a following \<open>Get(e.ID)\<close> (under any context) returns exactly \<open>e\<close>, hence the
  same item and quantity, with no error.
\<close>

theorem memory_Create_Get_roundtrip:
  "ID e \<noteq> [] \<Longrightarrow>
     fst (memory_Create ctx e r) = None \<and>
     memory_Get ctx' (ID e) (snd (memory_Create ctx e r)) = (e, None)"
  by (simp add: memory_Create_def memory_Get_def)

theorem memory_Create_Get_roundtrip_witness:
  "ID widget \<noteq> [] \<and>
   fst (memory_Create Background widget memory_New) = None \<and>
   memory_Get Background ''1'' (snd (memory_Create Background widget memory_New))
     = (\<lparr>ID = ''1'', Item = ''Widget'', Quantity = 2\<rparr>, None)"
  using memory_Create_Get_roundtrip [of widget Background memory_New Background]
  by (simp add: widget_def)

text \<open>
  C2. An identifier that is not in the store (\<open>orders r oid = None\<close>: never created, as
  in \<open>memory_New\<close>, or deleted, as after \<open>memory_Delete\<close>) makes \<open>Get\<close>, \<open>Update\<close> of
  an order with that identifier, and \<open>Delete\<close> each fail with \<open>ErrNotFound\<close>; the store
  is left as it was.
\<close>

theorem memory_absent_NotFound:
  "orders r oid = None \<Longrightarrow> ID ord = oid \<Longrightarrow>
     memory_Get ctx oid r = (Order_zero, Some ErrNotFound) \<and>
     memory_Update ctx ord r = (Some ErrNotFound, r) \<and>
     memory_Delete ctx oid r = (Some ErrNotFound, r)"
  by (simp add: memory_Get_def memory_Update_def memory_Delete_def)

theorem memory_absent_NotFound_witness:
  "orders (snd (memory_Delete Background ''1''
             (snd (memory_Create Background widget memory_New)))) ''1'' = None \<and>
   ID gadget = ''1'' \<and>
   snd (memory_Get Background ''1''
         (snd (memory_Delete Background ''1''
           (snd (memory_Create Background widget memory_New))))) = Some ErrNotFound \<and>
   fst (memory_Update Background gadget
         (snd (memory_Delete Background ''1''
           (snd (memory_Create Background widget memory_New))))) = Some ErrNotFound \<and>
   fst (memory_Delete Background ''1''
         (snd (memory_Delete Background ''1''
           (snd (memory_Create Background widget memory_New))))) = Some ErrNotFound"
  using memory_absent_NotFound
    [of "snd (memory_Delete Background ''1'' (snd (memory_Create Background widget memory_New)))"
        "''1''" gadget Background]
  by (simp add: memory_Delete_absent_after gadget_def)

text \<open>
  C4. When the store already holds an order under \<open>ID ord\<close>, \<open>Create(ord)\<close> of the
  in-memory repository reports no error and the store afterwards is the old one with
  \<open>ord\<close> under that identifier (so \<open>Get\<close> returns \<open>ord\<close>); the older \<open>Store.Create\<close>,
  which has no error result, replaces the entry in the same way.
\<close>

theorem Create_existing_overwrites:
  "(orders r (ID ord) = Some old \<longrightarrow>
      fst (memory_Create ctx ord r) = None \<and>
      orders (snd (memory_Create ctx ord r)) = (orders r)(ID ord \<mapsto> ord) \<and>
      memory_Get ctx' (ID ord) (snd (memory_Create ctx ord r)) = (ord, None)) \<and>
   (Store_orders s (ID ord) = Some old \<longrightarrow>
      Store_orders (Store_Create ord s) = (Store_orders s)(ID ord \<mapsto> ord))"
  by (simp add: memory_Create_def memory_Get_def Store_Create_def)

theorem Create_existing_overwrites_witness:
  "orders (snd (memory_Create Background widget memory_New)) (ID gadget) = Some widget \<and>
   fst (memory_Create Background gadget (snd (memory_Create Background widget memory_New))) = None \<and>
   memory_Get Background ''1''
     (snd (memory_Create Background gadget (snd (memory_Create Background widget memory_New))))
     = (gadget, None) \<and>
   Store_orders (Store_Create widget NewStore) (ID gadget) = Some widget \<and>
   Store_orders (Store_Create gadget (Store_Create widget NewStore)) ''1'' = Some gadget"
  using Create_existing_overwrites
    [of "snd (memory_Create Background widget memory_New)" gadget widget Background Background
        "Store_Create widget NewStore"]
  by (simp add: memory_Create_def Store_Create_def widget_def gadget_def)

lemma memory_Update_present:
  "orders r (ID ord) = Some old \<Longrightarrow>
     memory_Update ctx ord r = (None, r\<lparr>orders := (orders r)(ID ord \<mapsto> ord)\<rparr>)"
  by (simp add: memory_Update_def)

lemma sql_UPDATE_affected: "fst (sql_UPDATE p1 p2 p3 t) = (if t p1 = None then 0 else 1)"
  by (simp add: sql_UPDATE_def split: option.splits)

lemma postgres_Update_success:
  assumes "fst (postgres_Update ctx ord fault t) = None"
  shows "fault = None" and "t (ID ord) \<noteq> None"
    and "snd (postgres_Update ctx ord fault t) = t(ID ord \<mapsto> (Item ord, Quantity ord))"
proof -
  show no_fault: "fault = None"
    using assms by (cases fault) (simp_all add: postgres_Update_def)
  show present: "t (ID ord) \<noteq> None"
    using assms no_fault
    by (cases "t (ID ord)") (simp_all add: postgres_Update_def sql_UPDATE_def)
  show "snd (postgres_Update ctx ord fault t) = t(ID ord \<mapsto> (Item ord, Quantity ord))"
    using no_fault present
    by (cases "t (ID ord)") (simp_all add: postgres_Update_def sql_UPDATE_def)
qed

lemma postgres_Update_missing:
  "t (ID ord) = None \<Longrightarrow> postgres_Update ctx ord None t = (Some ErrNotFound, t)"
  by (simp add: postgres_Update_def sql_UPDATE_def)

text \<open>
  C5. When the store holds an order under \<open>ID ord\<close>, \<open>Update(ord)\<close> of the in-memory
  repository succeeds, the entry under \<open>ID ord\<close> becomes \<open>ord\<close> (all attributes
  replaced), and the entry under every other identifier is the one from before the call.
  The same holds of a successful \<open>Update(ord)\<close> of the PostgreSQL repository on the
  table: the row of \<open>ID ord\<close> gets the item and quantity of \<open>ord\<close>, every other row is
  as before.
\<close>

theorem Update_frame:
  "(orders r (ID ord) = Some old \<longrightarrow>
      fst (memory_Update ctx ord r) = None \<and>
      orders (snd (memory_Update ctx ord r)) (ID ord) = Some ord \<and>
      (\<forall>k. k \<noteq> ID ord \<longrightarrow> orders (snd (memory_Update ctx ord r)) k = orders r k)) \<and>
   (t (ID ord) = Some row \<and> fst (postgres_Update ctx ord fault t) = None \<longrightarrow>
      snd (postgres_Update ctx ord fault t) (ID ord) = Some (Item ord, Quantity ord) \<and>
      (\<forall>k. k \<noteq> ID ord \<longrightarrow> snd (postgres_Update ctx ord fault t) k = t k))"
proof -
  have mem:
    "fst (memory_Update ctx ord r) = None \<and>
     orders (snd (memory_Update ctx ord r)) (ID ord) = Some ord \<and>
     (\<forall>k. k \<noteq> ID ord \<longrightarrow> orders (snd (memory_Update ctx ord r)) k = orders r k)"
    if "orders r (ID ord) = Some old"
  proof -
    from that
    have "memory_Update ctx ord r = (None, r\<lparr>orders := (orders r)(ID ord \<mapsto> ord)\<rparr>)"
      by (rule memory_Update_present)
    then show ?thesis by simp
  qed
  have pg:
    "snd (postgres_Update ctx ord fault t) (ID ord) = Some (Item ord, Quantity ord) \<and>
     (\<forall>k. k \<noteq> ID ord \<longrightarrow> snd (postgres_Update ctx ord fault t) k = t k)"
    if "fst (postgres_Update ctx ord fault t) = None"
  proof -
    from that
    have "snd (postgres_Update ctx ord fault t) = t(ID ord \<mapsto> (Item ord, Quantity ord))"
      by (rule postgres_Update_success)
    then show ?thesis by simp
  qed
  from mem pg show ?thesis by blast
qed

theorem Update_frame_witness:
  "orders \<lparr>orders = [''1'' \<mapsto> widget, ''2'' \<mapsto> sprocket]\<rparr> (ID gadget) = Some widget \<and>
   fst (memory_Update Background gadget \<lparr>orders = [''1'' \<mapsto> widget, ''2'' \<mapsto> sprocket]\<rparr>) = None \<and>
   orders (snd (memory_Update Background gadget
             \<lparr>orders = [''1'' \<mapsto> widget, ''2'' \<mapsto> sprocket]\<rparr>)) ''1'' = Some gadget \<and>
   orders (snd (memory_Update Background gadget
             \<lparr>orders = [''1'' \<mapsto> widget, ''2'' \<mapsto> sprocket]\<rparr>)) ''2'' = Some sprocket \<and>
   [''1'' \<mapsto> (''Widget'', 2), ''2'' \<mapsto> (''Sprocket'', 5)] (ID gadget) = Some (''Widget'', 2 :: 64 word) \<and>
   fst (postgres_Update Background gadget None
         [''1'' \<mapsto> (''Widget'', 2), ''2'' \<mapsto> (''Sprocket'', 5)]) = None \<and>
   snd (postgres_Update Background gadget None
         [''1'' \<mapsto> (''Widget'', 2), ''2'' \<mapsto> (''Sprocket'', 5)]) ''1'' = Some (''Gadget'', 2) \<and>
   snd (postgres_Update Background gadget None
         [''1'' \<mapsto> (''Widget'', 2), ''2'' \<mapsto> (''Sprocket'', 5)]) ''2'' = Some (''Sprocket'', 5)"
  using Update_frame
    [of "\<lparr>orders = [''1'' \<mapsto> widget, ''2'' \<mapsto> sprocket]\<rparr>" gadget widget Background
        "[''1'' \<mapsto> (''Widget'', 2), ''2'' \<mapsto> (''Sprocket'', 5)]" "(''Widget'', 2)" None]
  by (simp add: gadget_def postgres_Update_def sql_UPDATE_def)

text \<open>
  C8. No method of the in-memory repository consults its context: with any two contexts
  (live, cancelled or past their deadline) each method returns the same results and
  leaves the same store, and the only error any of them returns is \<open>ErrNotFound\<close>,
  never \<open>Canceled\<close> or \<open>DeadlineExceeded\<close>.
\<close>

theorem memory_ignores_context:
  "memory_Create ctx ord r = memory_Create ctx' ord r \<and>
   memory_Get ctx oid r = memory_Get ctx' oid r \<and>
   memory_List ctx ks r = memory_List ctx' ks r \<and>
   memory_Update ctx ord r = memory_Update ctx' ord r \<and>
   memory_Delete ctx oid r = memory_Delete ctx' oid r \<and>
   fst (memory_Create ctx ord r) = None \<and>
   snd (memory_Get ctx oid r) \<in> {None, Some ErrNotFound} \<and>
   snd (memory_List ctx ks r) = None \<and>
   fst (memory_Update ctx ord r) \<in> {None, Some ErrNotFound} \<and>
   fst (memory_Delete ctx oid r) \<in> {None, Some ErrNotFound}"
  by (simp add: memory_Create_def memory_Get_def memory_List_def memory_Update_def
      memory_Delete_def split: option.splits)

text \<open>
  With a cancelled context \<open>Create\<close>, \<open>Get\<close>, \<open>Update\<close> and \<open>Delete\<close> of the
  in-memory repository run to completion and report success.
\<close>

theorem memory_cancelled_counterexample:
  "ctx_Err cancelled = Some Canceled \<and>
   memory_Create cancelled widget memory_New = (None, \<lparr>orders = [''1'' \<mapsto> widget]\<rparr>) \<and>
   memory_Get cancelled ''1'' \<lparr>orders = [''1'' \<mapsto> widget]\<rparr> = (widget, None) \<and>
   memory_Update cancelled gadget \<lparr>orders = [''1'' \<mapsto> widget]\<rparr>
     = (None, \<lparr>orders = [''1'' \<mapsto> gadget]\<rparr>) \<and>
   memory_Delete cancelled ''1'' \<lparr>orders = [''1'' \<mapsto> gadget]\<rparr> = (None, memory_New)"
  by (simp add: cancelled_def memory_Create_def memory_Get_def memory_Update_def
      memory_Delete_def memory_New_def widget_def gadget_def)

subsection \<open>Listing an empty store\<close>

lemma memory_List_empty:
  "orders r = Map.empty \<Longrightarrow> set ks = dom (orders r) \<Longrightarrow> memory_List ctx ks r = (Some [], None)"
  by (simp add: memory_List_def make_slice_def)

lemma postgres_List_no_rows:
  "postgres_List ctx (Inr \<lparr>Rows_Scan = [], Rows_Err = None\<rparr>) = (None, None)"
  by (simp add: postgres_List_def)

text \<open>
  C3. On a store that holds nothing the in-memory \<open>List\<close> returns the non-nil empty
  slice, while \<open>List\<close> of the PostgreSQL repository and of \<open>PGStore\<close>, given a query
  that succeeds and delivers no row, return the nil slice with no error.
\<close>

theorem List_empty_store:
  "memory_List Background [] memory_New = (Some [], None) \<and>
   postgres_List Background (Inr \<lparr>Rows_Scan = [], Rows_Err = None\<rparr>) = (None, None) \<and>
   PGStore_List Background (Inr \<lparr>Rows_Scan = [], Rows_Err = None\<rparr>) = (None, None)"
  by (simp add: postgres_List_def PGStore_List_def memory_List_def make_slice_def)

subsection \<open>The authentication gate and the login\<close>

lemma authMiddleware_no_cookie:
  "Cookies r ''session_id'' = None \<Longrightarrow>
     authMiddleware redis_Get next r s = (http_Error ''unauthorized'' 401, s)"
  by (simp add: authMiddleware_def)

lemma authMiddleware_lookup:
  "Cookies r ''session_id'' = Some c \<Longrightarrow> redis_Get (Ctx r) (''session:'' @ c) = (user, err) \<Longrightarrow>
     authMiddleware redis_Get next r s =
       (if err \<noteq> None \<or> user = [] then (http_Error ''unauthorized'' 401, s)
        else next (r\<lparr>Ctx := WithValue (Ctx r) ''user'' user\<rparr>) s)"
  by (simp add: authMiddleware_def)

text \<open>
  C6. The gate, request by request. Without a \<^verbatim>\<open>session_id\<close> cookie the answer is
  401 \<^verbatim>\<open>unauthorized\<close> and the wrapped handler is not run (the result does not depend
  on it and the state is untouched). With the cookie, the session identifier is resolved
  by looking up \<^verbatim>\<open>session:<cookie value>\<close>; the code counts the resolution as
  failed when the lookup reports an error or yields the empty username
  (\<^verbatim>\<open>err != nil || user == ""\<close>), and then the answer is again 401 and the handler
  is not run. When the resolution succeeds, the result is that of one run of the wrapped
  handler, on the request whose context carries the resolved username under the key
  \<^verbatim>\<open>user\<close>.
\<close>

theorem authMiddleware_steps:
  "(Cookies r ''session_id'' = None \<longrightarrow>
      authMiddleware redis_Get next r s = (http_Error ''unauthorized'' 401, s)) \<and>
   (Cookies r ''session_id'' = Some c \<and> redis_Get (Ctx r) (''session:'' @ c) = (user, err) \<and>
    (err \<noteq> None \<or> user = []) \<longrightarrow>
      authMiddleware redis_Get next r s = (http_Error ''unauthorized'' 401, s)) \<and>
   (Cookies r ''session_id'' = Some c \<and> redis_Get (Ctx r) (''session:'' @ c) = (user, None) \<and>
    user \<noteq> [] \<longrightarrow>
      authMiddleware redis_Get next r s = next (r\<lparr>Ctx := WithValue (Ctx r) ''user'' user\<rparr>) s \<and>
      ctx_Value (WithValue (Ctx r) ''user'' user) ''user'' = Some user)"
proof -
  have absent: "authMiddleware redis_Get next r s = (http_Error ''unauthorized'' 401, s)"
    if "Cookies r ''session_id'' = None"
    using that by (rule authMiddleware_no_cookie)
  have rejected: "authMiddleware redis_Get next r s = (http_Error ''unauthorized'' 401, s)"
    if "Cookies r ''session_id'' = Some c"
      and "redis_Get (Ctx r) (''session:'' @ c) = (user, err)"
      and "err \<noteq> None \<or> user = []"
    using that by (simp add: authMiddleware_lookup)
  have forwarded:
    "authMiddleware redis_Get next r s = next (r\<lparr>Ctx := WithValue (Ctx r) ''user'' user\<rparr>) s"
    if "Cookies r ''session_id'' = Some c"
      and "redis_Get (Ctx r) (''session:'' @ c) = (user, None)"
      and "user \<noteq> []"
    using that by (simp add: authMiddleware_lookup)
  have attached: "ctx_Value (WithValue (Ctx r) ''user'' user) ''user'' = Some user"
    by (simp add: WithValue_def)
  from absent rejected forwarded attached show ?thesis by blast
qed

theorem authMiddleware_steps_witness:
  "Cookies req_no_cookie ''session_id'' = None \<and>
   authMiddleware (kv_Get [''session:abc'' \<mapsto> ''alice'']) record_next req_no_cookie []
     = (http_Error ''unauthorized'' 401, []) \<and>
   Cookies req_abc ''session_id'' = Some ''abc'' \<and>
   kv_Get Map.empty (Ctx req_abc) (''session:'' @ ''abc'') = ([], Some RedisNil) \<and>
   authMiddleware (kv_Get Map.empty) record_next req_abc []
     = (http_Error ''unauthorized'' 401, []) \<and>
   kv_Get [''session:abc'' \<mapsto> ''alice''] (Ctx req_abc) (''session:'' @ ''abc'') = (''alice'', None) \<and>
   authMiddleware (kv_Get [''session:abc'' \<mapsto> ''alice'']) record_next req_abc []
     = (\<lparr>status = 200, payload = NoBody, set_cookies = []\<rparr>,
        [\<lparr>ctx_Err = None, ctx_Value = [''user'' \<mapsto> ''alice'']\<rparr>])"
  using authMiddleware_steps
      [where r = req_no_cookie and redis_Get = "kv_Get [''session:abc'' \<mapsto> ''alice'']"
         and ?next = record_next and s = "[]"]
    authMiddleware_steps
      [where r = req_abc and c = "''abc''" and redis_Get = "kv_Get Map.empty" and user = "[]"
         and err = "Some RedisNil" and ?next = record_next and s = "[]"]
    authMiddleware_steps
      [where r = req_abc and c = "''abc''"
         and redis_Get = "kv_Get [''session:abc'' \<mapsto> ''alice'']" and user = "''alice''"
         and ?next = record_next and s = "[]"]
  by (simp add: req_no_cookie_def req_abc_def kv_Get_def record_next_def WithValue_def
      Background_def)

text \<open>
  The empty username as a failed resolution: a stored session whose value is the empty
  string is rejected although the lookup reports no error. The login never stores one:
  a session store without empty usernames has none after a login either, and a lookup
  in such a store that reports no error yields a non-empty username.
\<close>

lemma authMiddleware_empty_username:
  "kv_Get [''session:abc'' \<mapsto> []] (Ctx req_abc) ''session:abc'' = ([], None) \<and>
   authMiddleware (kv_Get [''session:abc'' \<mapsto> []]) record_next req_abc []
     = (http_Error ''unauthorized'' 401, [])"
  by (simp add: authMiddleware_def kv_Get_def req_abc_def)

lemma loginHandler_stores_nonempty:
  assumes "\<And>k. m k \<noteq> Some []"
  shows "snd (loginHandler kv_Set now now2 r m) k \<noteq> Some []"
  using assms
  by (cases "Body r") (simp_all add: loginHandler_def kv_Set_def Let_def)

lemma kv_Get_nonempty:
  assumes "\<And>k. m k \<noteq> Some []" and "kv_Get m ctx key = (user, None)"
  shows "user \<noteq> []"
  using assms by (cases "m key") (auto simp: kv_Get_def)

text \<open>
  C7. The login does not look at the password: two requests that differ only in the
  password have the same outcome, whatever the session store does. With a non-empty
  username, when the store accepts the write of \<^verbatim>\<open>session:<sid>\<close> to that username
  for one hour, the answer is 200 with the cookie \<^verbatim>\<open>session_id=<sid>\<close> and the store is
  the one after that write. With the empty username the answer is 400 and nothing is
  written.
\<close>

theorem loginHandler_ignores_password:
  "loginHandler redis_Set now now2 (r\<lparr>Body := Inr \<lparr>Username = u, Password = p1\<rparr>\<rparr>) s
     = loginHandler redis_Set now now2 (r\<lparr>Body := Inr \<lparr>Username = u, Password = p2\<rparr>\<rparr>) s \<and>
   (u \<noteq> [] \<and>
    redis_Set (Ctx r) (''session:'' @ FormatInt (UnixNano now) 10) u Hour s = (None, s') \<longrightarrow>
      loginHandler redis_Set now now2 (r\<lparr>Body := Inr \<lparr>Username = u, Password = p1\<rparr>\<rparr>) s
        = (\<lparr>status = 200, payload = NoBody,
            set_cookies = [\<lparr>Name = ''session_id'', Value = FormatInt (UnixNano now) 10,
                            Path = ''/'', Expires = now2 + Hour, HttpOnly = True\<rparr>]\<rparr>, s')) \<and>
   (u = [] \<longrightarrow>
      loginHandler redis_Set now now2 (r\<lparr>Body := Inr \<lparr>Username = u, Password = p1\<rparr>\<rparr>) s
        = (http_Error ''invalid credentials'' 400, s))"
  by (simp add: loginHandler_def)

lemma FormatInt_42: "FormatInt (UnixNano 42) 10 = ''42''"
  by (simp add: FormatInt_def UnixNano_def format_digits.simps digit_char_def)

theorem loginHandler_ignores_password_witness:
  "''alice'' \<noteq> [] \<and>
   kv_Set Background (''session:'' @ FormatInt (UnixNano 42) 10) ''alice'' Hour Map.empty
     = (None, [''session:42'' \<mapsto> ''alice'']) \<and>
   loginHandler kv_Set 42 43 (login_req ''alice'' ''secret'') Map.empty
     = loginHandler kv_Set 42 43 (login_req ''alice'' ''wrong'') Map.empty \<and>
   loginHandler kv_Set 42 43 (login_req ''alice'' ''wrong'') Map.empty
     = (\<lparr>status = 200, payload = NoBody,
         set_cookies = [\<lparr>Name = ''session_id'', Value = ''42'', Path = ''/'',
                         Expires = 43 + Hour, HttpOnly = True\<rparr>]\<rparr>,
        [''session:42'' \<mapsto> ''alice'']) \<and>
   loginHandler kv_Set 42 43 (login_req [] ''secret'') Map.empty
     = (http_Error ''invalid credentials'' 400, Map.empty)"
  using loginHandler_ignores_password
      [where redis_Set = kv_Set and now = 42 and ?now2.0 = 43
         and r = "login_req ''alice'' ''secret''" and u = "''alice''"
         and ?p1.0 = "''wrong''" and ?p2.0 = "''secret''"
         and s = Map.empty and s' = "[''session:42'' \<mapsto> ''alice'']"]
    loginHandler_ignores_password
      [where redis_Set = kv_Set and now = 42 and ?now2.0 = 43
         and r = "login_req [] ''secret''" and u = "[]"
         and ?p1.0 = "''secret''" and ?p2.0 = "''secret''"
         and s = Map.empty and s' = Map.empty]
  by (simp add: loginHandler_def login_req_def kv_Set_def FormatInt_42 Background_def)

subsection \<open>The order handlers\<close>

lemma format_digits_nonempty: "format_digits u base \<noteq> []"
  by (subst format_digits.simps) simp

lemma FormatInt_nonempty: "FormatInt i base \<noteq> []"
  by (simp add: FormatInt_def format_digits_nonempty)

text \<open>
  C9. Let \<open>ord\<close> be the decoded order with, when its identifier is empty, the identifier
  replaced by the decimal rendering of the clock reading, and the decoded order itself
  otherwise. Then \<open>ord\<close> has a non-empty identifier and the submitted item and quantity,
  a submitted non-empty identifier is kept, and \<open>ord\<close> is the order the handler passes
  to the repository's \<open>Create\<close> and, when that succeeds, returns with status 201. On the
  in-memory repository the store then holds \<open>ord\<close> under its identifier and \<open>Get\<close> of
  that identifier returns it.
\<close>

theorem createOrderHandler_fills_id:
  "Body r = Inr decoded \<Longrightarrow>
   ord = (if ID decoded = [] then decoded\<lparr>ID := FormatInt (UnixNano now) 10\<rparr> else decoded) \<Longrightarrow>
     ID ord \<noteq> [] \<and> Item ord = Item decoded \<and> Quantity ord = Quantity decoded \<and>
     (ID decoded \<noteq> [] \<longrightarrow> ID ord = ID decoded) \<and>
     snd (createOrderHandler repo_Create now r s) = snd (repo_Create (Ctx r) ord s) \<and>
     (fst (repo_Create (Ctx r) ord s) = None \<longrightarrow>
        fst (createOrderHandler repo_Create now r s)
          = \<lparr>status = 201, payload = JSON_Order ord, set_cookies = []\<rparr>) \<and>
     createOrderHandler memory_Create now r repo
       = (\<lparr>status = 201, payload = JSON_Order ord, set_cookies = []\<rparr>,
          repo\<lparr>orders := (orders repo)(ID ord \<mapsto> ord)\<rparr>) \<and>
     memory_Get ctx (ID ord) (snd (createOrderHandler memory_Create now r repo)) = (ord, None)"
  by (cases "repo_Create (Ctx r) ord s")
     (auto simp: createOrderHandler_def Let_def FormatInt_nonempty memory_Create_def memory_Get_def
      split: option.splits)

theorem createOrderHandler_fills_id_witness:
  "Body (order_req Map.empty \<lparr>ID = [], Item = ''Widget'', Quantity = 2\<rparr>)
     = Inr \<lparr>ID = [], Item = ''Widget'', Quantity = 2\<rparr> \<and>
   createOrderHandler memory_Create 42
       (order_req Map.empty \<lparr>ID = [], Item = ''Widget'', Quantity = 2\<rparr>) memory_New
     = (\<lparr>status = 201, payload = JSON_Order \<lparr>ID = ''42'', Item = ''Widget'', Quantity = 2\<rparr>,
         set_cookies = []\<rparr>,
        \<lparr>orders = [''42'' \<mapsto> \<lparr>ID = ''42'', Item = ''Widget'', Quantity = 2\<rparr>]\<rparr>) \<and>
   memory_Get Background ''42''
       (snd (createOrderHandler memory_Create 42
              (order_req Map.empty \<lparr>ID = [], Item = ''Widget'', Quantity = 2\<rparr>) memory_New))
     = (\<lparr>ID = ''42'', Item = ''Widget'', Quantity = 2\<rparr>, None) \<and>
   Body (order_req Map.empty widget) = Inr widget \<and>
   createOrderHandler memory_Create 42 (order_req Map.empty widget) memory_New
     = (\<lparr>status = 201, payload = JSON_Order widget, set_cookies = []\<rparr>,
        \<lparr>orders = [''1'' \<mapsto> widget]\<rparr>)"
  using createOrderHandler_fills_id
      [where r = "order_req Map.empty \<lparr>ID = [], Item = ''Widget'', Quantity = 2\<rparr>"
         and decoded = "\<lparr>ID = [], Item = ''Widget'', Quantity = 2\<rparr>" and now = 42
         and ord = "\<lparr>ID = ''42'', Item = ''Widget'', Quantity = 2\<rparr>"
         and repo_Create = memory_Create and s = memory_New and repo = memory_New
         and ctx = Background]
    createOrderHandler_fills_id
      [where r = "order_req Map.empty widget" and decoded = widget and now = 42
         and ord = widget and repo_Create = memory_Create and s = memory_New
         and repo = memory_New and ctx = Background]
  by (simp add: order_req_def FormatInt_42 memory_New_def widget_def createOrderHandler_def
      memory_Create_def memory_Get_def Let_def)

text \<open>
  C10. For a request to \<^verbatim>\<open>/orders/{id}\<close> with path identifier \<open>pid\<close> and a decoded
  body, the order the handler passes to the repository's \<open>Update\<close> is the decoded order
  with its identifier overwritten by \<open>pid\<close>; when \<open>Update\<close> succeeds the answer is 200
  with that order; and the whole outcome is the same whatever identifier the body
  carried.
\<close>

theorem updateOrderHandler_path_id:
  "Vars r ''id'' = Some pid \<Longrightarrow> Body r = Inr decoded \<Longrightarrow>
     snd (updateOrderHandler repo_Update r s) = snd (repo_Update (Ctx r) (decoded\<lparr>ID := pid\<rparr>) s) \<and>
     (fst (repo_Update (Ctx r) (decoded\<lparr>ID := pid\<rparr>) s) = None \<longrightarrow>
        fst (updateOrderHandler repo_Update r s)
          = \<lparr>status = 200, payload = JSON_Order (decoded\<lparr>ID := pid\<rparr>), set_cookies = []\<rparr>) \<and>
     updateOrderHandler repo_Update (r\<lparr>Body := Inr (decoded\<lparr>ID := body_id\<rparr>)\<rparr>) s
       = updateOrderHandler repo_Update r s"
  by (cases "repo_Update (Ctx r) (decoded\<lparr>ID := pid\<rparr>) s")
     (auto simp: updateOrderHandler_def Let_def split: option.splits)

theorem updateOrderHandler_path_id_witness:
  "Vars (order_req [''id'' \<mapsto> ''1''] \<lparr>ID = ''2'', Item = ''Gadget'', Quantity = 2\<rparr>) ''id''
     = Some ''1'' \<and>
   Body (order_req [''id'' \<mapsto> ''1''] \<lparr>ID = ''2'', Item = ''Gadget'', Quantity = 2\<rparr>)
     = Inr \<lparr>ID = ''2'', Item = ''Gadget'', Quantity = 2\<rparr> \<and>
   fst (memory_Update Background gadget \<lparr>orders = [''1'' \<mapsto> widget, ''2'' \<mapsto> sprocket]\<rparr>) = None \<and>
   fst (updateOrderHandler memory_Update
         (order_req [''id'' \<mapsto> ''1''] \<lparr>ID = ''2'', Item = ''Gadget'', Quantity = 2\<rparr>)
         \<lparr>orders = [''1'' \<mapsto> widget, ''2'' \<mapsto> sprocket]\<rparr>)
     = \<lparr>status = 200, payload = JSON_Order gadget, set_cookies = []\<rparr> \<and>
   orders (snd (updateOrderHandler memory_Update
         (order_req [''id'' \<mapsto> ''1''] \<lparr>ID = ''2'', Item = ''Gadget'', Quantity = 2\<rparr>)
         \<lparr>orders = [''1'' \<mapsto> widget, ''2'' \<mapsto> sprocket]\<rparr>)) ''1'' = Some gadget \<and>
   orders (snd (updateOrderHandler memory_Update
         (order_req [''id'' \<mapsto> ''1''] \<lparr>ID = ''2'', Item = ''Gadget'', Quantity = 2\<rparr>)
         \<lparr>orders = [''1'' \<mapsto> widget, ''2'' \<mapsto> sprocket]\<rparr>)) ''2'' = Some sprocket"
  using updateOrderHandler_path_id
      [where r = "order_req [''id'' \<mapsto> ''1''] \<lparr>ID = ''2'', Item = ''Gadget'', Quantity = 2\<rparr>"
         and pid = "''1''" and decoded = "\<lparr>ID = ''2'', Item = ''Gadget'', Quantity = 2\<rparr>"
         and repo_Update = memory_Update
         and s = "\<lparr>orders = [''1'' \<mapsto> widget, ''2'' \<mapsto> sprocket]\<rparr>" and body_id = "''1''"]
  by (simp add: order_req_def memory_Update_def updateOrderHandler_def gadget_def widget_def
      sprocket_def Let_def)

end
